theory Spec2Isabelle
  imports Complex_Main
begin

section \<open>simpleperf: a shallow embedding of \<^verbatim>\<open>simpleperf.py\<close>\<close>

text \<open>
  The embedding follows the Python source function by function.
  \<^item> Python's unbounded integers are \<open>int\<close>.
  \<^item> Python's floats (time stamps, quotients) are exact rationals (\<open>rat\<close>): the
    rounding of IEEE doubles, infinities and NaN are outside the model.
  \<^item> \<open>str\<close> and \<open>bytes\<close> values are \<open>string\<close>.
  \<^item> Exceptions are values of \<open>error\<close>; a call either returns or raises (\<open>outcome\<close>).
  \<^item> Console output and socket operations are recorded, in order, as a list of
    \<open>event\<close>s that every effectful function takes and returns extended.
  \<^item> What the environment decides (the clock, what the peer sends, whether a socket
    call fails) is read from a \<open>world\<close> record of oracles.
\<close>

subsection \<open>Errors, events and the environment\<close>

datatype error = ValueError | OSError

datatype outcome = Returned | Raised error

datatype event =
    Print string      \<comment> \<open>\<^verbatim>\<open>print(s)\<close>\<close>
  | Connect           \<comment> \<open>\<^verbatim>\<open>client_socket.connect(...)\<close>\<close>
  | Sendall string    \<comment> \<open>\<^verbatim>\<open>client_socket.sendall(b)\<close>\<close>
  | Send string       \<comment> \<open>\<^verbatim>\<open>client_socket.send(b)\<close>\<close>
  | Close             \<comment> \<open>\<^verbatim>\<open>client_socket.close()\<close>\<close>

type_synonym address = "string \<times> int"

record world =
  clock :: "nat \<Rightarrow> rat"                \<comment> \<open>the value of the k-th call of \<^verbatim>\<open>time.time()\<close>\<close>
  connect_res :: "error option"         \<comment> \<open>\<^verbatim>\<open>connect\<close>: \<open>Some e\<close> when it raises\<close>
  name_res :: "error + address"         \<comment> \<open>\<^verbatim>\<open>getpeername()\<close> / \<^verbatim>\<open>getsockname()\<close>\<close>
  recv_res :: "nat \<Rightarrow> error + string"    \<comment> \<open>the k-th call of \<^verbatim>\<open>recv\<close>: raises or returns bytes\<close>
  send_res :: "nat \<Rightarrow> error option"      \<comment> \<open>the k-th call of \<^verbatim>\<open>send\<close>/\<^verbatim>\<open>sendall\<close>\<close>

definition CHUNK_SIZE :: int where
  "CHUNK_SIZE = 1000"

subsection \<open>Python's string formatting\<close>

definition digit_char :: "nat \<Rightarrow> char" where
  "digit_char n = ''0123456789'' ! (n mod 10)"

fun str_nat :: "nat \<Rightarrow> string" where
  "str_nat n = (if n < 10 then [digit_char n] else str_nat (n div 10) @ [digit_char n])"

declare str_nat.simps [simp del]

definition str_int :: "int \<Rightarrow> string" where
  \<comment> \<open>\<^verbatim>\<open>str(i)\<close>, \<^verbatim>\<open>f"{i}"\<close> for an integer\<close>
  "str_int i = (if i < 0 then ''-'' @ str_nat (nat (- i)) else str_nat (nat i))"

definition round_half_even :: "rat \<Rightarrow> int" where
  "round_half_even q =
     (let f = \<lfloor>q\<rfloor>; r = q - of_int f
      in if r < 1 / 2 then f
         else if 1 / 2 < r then f + 1
         else if even f then f else f + 1)"

definition fmt_f :: "nat \<Rightarrow> rat \<Rightarrow> string" where
  \<comment> \<open>\<^verbatim>\<open>f"{q:.df}"\<close>: d digits after the point, the exact value rounded half to even\<close>
  "fmt_f d q =
     (let m = nat (round_half_even (\<bar>q\<bar> * 10 ^ d));
          ip = m div 10 ^ d;
          fp = str_nat (m mod 10 ^ d)
      in (if q < 0 then ''-'' else '''') @ str_nat ip @
         (if d = 0 then '''' else ''.'' @ replicate (d - length fp) (CHR ''0'') @ fp))"

definition ljust :: "nat \<Rightarrow> string \<Rightarrow> string" where
  \<comment> \<open>\<^verbatim>\<open>f"{s:<n}"\<close>: pad with spaces on the right up to width n\<close>
  "ljust n s = s @ replicate (n - length s) (CHR '' '')"

definition endswith :: "string \<Rightarrow> string \<Rightarrow> bool" where
  "endswith s suf = (length suf \<le> length s \<and> drop (length s - length suf) s = suf)"

subsection \<open>\<^verbatim>\<open>print_statistics\<close> (lines 8-55)\<close>

definition bytes_transfered :: "string \<Rightarrow> int \<Rightarrow> string" where
  \<comment> \<open>lines 38-43\<close>
  "bytes_transfered format bytes_sent =
     (if format = ''B'' then str_int bytes_sent @ '' B''
      else if format = ''KB'' then fmt_f 0 (of_int bytes_sent / of_int CHUNK_SIZE) @ '' KB''
      else fmt_f 2 (of_int bytes_sent / of_int CHUNK_SIZE / of_int CHUNK_SIZE) @ '' MB'')"

definition id_text :: "address \<Rightarrow> string" where
  \<comment> \<open>line 46\<close>
  "id_text client_address = fst client_address @ '':'' @ str_int (snd client_address)"

definition interval_text :: "int \<Rightarrow> rat \<Rightarrow> string" where
  \<comment> \<open>line 49\<close>
  "interval_text interval_number interval_size =
     fmt_f 1 (of_int interval_number * interval_size) @ '' - '' @
     fmt_f 1 (of_int interval_number * interval_size + interval_size)"

definition bandwidth :: "int \<Rightarrow> rat \<Rightarrow> string" where
  \<comment> \<open>line 52\<close>
  "bandwidth bytes_sent interval_size =
     fmt_f 1 ((of_int bytes_sent / of_int CHUNK_SIZE / of_int CHUNK_SIZE / interval_size) * 8)
       @ '' Mbps''"

definition stats_row :: "string \<Rightarrow> string \<Rightarrow> string \<Rightarrow> string \<Rightarrow> string" where
  \<comment> \<open>the f-string of line 55: four left-justified fields\<close>
  "stats_row ident interv transfered bw =
     ljust 16 ident @ '' '' @ ljust 12 interv @ '' '' @ ljust 12 transfered @ '' '' @ ljust 12 bw"

definition print_statistics ::
  "address \<Rightarrow> int \<Rightarrow> int \<Rightarrow> rat \<Rightarrow> string \<Rightarrow> event list \<Rightarrow> outcome \<times> event list" where
  "print_statistics client_address bytes_sent interval_number interval_size format out =
     (if bytes_sent < 0 \<or> interval_size \<le> 0 then (Raised ValueError, out)
      else (Returned,
            out @ [Print (stats_row (id_text client_address)
                            (interval_text interval_number interval_size)
                            (bytes_transfered format bytes_sent)
                            (bandwidth bytes_sent interval_size))]))"

definition table_header :: string where
  \<comment> \<open>\<^verbatim>\<open>f"{'Id':<16} {'Interval':<12} {'Received':<12} {'Rate':<12}"\<close>\<close>
  "table_header = stats_row ''Id'' ''Interval'' ''Received'' ''Rate''"

subsection \<open>\<^verbatim>\<open>handle_client\<close> (lines 111-162)\<close>

text \<open>
  The receive loop of lines 141-159. \<open>k\<close> counts the calls of \<^verbatim>\<open>recv\<close> made so far. The loop
  has no exit besides the marker branch and a raising socket call, so it is a partial
  function: \<open>None\<close> is a run that never leaves the loop. The result carries the events
  performed inside the \<^verbatim>\<open>try\<close> block.
\<close>

partial_function (option) recv_loop ::
  "world \<Rightarrow> string \<Rightarrow> address \<Rightarrow> rat \<Rightarrow> nat \<Rightarrow> int \<Rightarrow> (outcome \<times> event list) option" where
  "recv_loop w format client_address start_time k bytes_received =
     (case recv_res w k of
        Inl e \<Rightarrow> Some (Raised e, [])
      | Inr data \<Rightarrow>
          (let bytes_received' = bytes_received + int (length data)
           in if drop (length data - 3) data = ''BYE'' then
                (case send_res w 0 of
                   Some e \<Rightarrow> Some (Raised e, [])
                 | None \<Rightarrow>
                     (let end_time = clock w 1 - start_time
                      in Some (print_statistics client_address bytes_received' 0 end_time format
                                 [Send ''ACK:BYE'', Print (CHR 0x0A # table_header)])))
              else recv_loop w format client_address start_time (k + 1) bytes_received'))"

declare recv_loop.simps [code]

definition handle_client :: "world \<Rightarrow> string \<Rightarrow> (outcome \<times> event list) option" where
  \<comment> \<open>\<open>format\<close> is the global \<^verbatim>\<open>args.format\<close>; \<^verbatim>\<open>getpeername\<close> is called before the \<^verbatim>\<open>try\<close>,
      the \<^verbatim>\<open>finally\<close> clause closes the socket however the block is left\<close>
  "handle_client w format =
     (case name_res w of
        Inl e \<Rightarrow> Some (Raised e, [])
      | Inr client_address \<Rightarrow>
          (case recv_loop w format client_address (clock w 0) 0 0 of
             None \<Rightarrow> None
           | Some (res, evs) \<Rightarrow> Some (res, evs @ [Close])))"

subsection \<open>Python's \<^verbatim>\<open>int(s)\<close> on a string\<close>

text \<open>
  Characters are code points below 256. \<^verbatim>\<open>int\<close> skips white space at both ends, reads an
  optional sign and then decimal digits, where single underscores may separate digits;
  anything else raises \<^verbatim>\<open>ValueError\<close> (\<open>None\<close> here). The interpreter's configurable limit
  on the number of digits is not modelled.
\<close>

definition is_space :: "char \<Rightarrow> bool" where
  "is_space c = (c \<in> set [CHR 0x09, CHR 0x0A, CHR 0x0B, CHR 0x0C, CHR 0x0D, CHR 0x20,
                            CHR 0x85, CHR 0xA0])"

definition digit_val :: "char \<Rightarrow> int option" where
  "digit_val = map_of [(CHR ''0'', 0), (CHR ''1'', 1), (CHR ''2'', 2), (CHR ''3'', 3),
     (CHR ''4'', 4), (CHR ''5'', 5), (CHR ''6'', 6), (CHR ''7'', 7), (CHR ''8'', 8),
     (CHR ''9'', 9)]"

fun scan_digits :: "int \<Rightarrow> bool \<Rightarrow> string \<Rightarrow> int option" where
  "scan_digits acc prev_underscore [] = (if prev_underscore then None else Some acc)"
| "scan_digits acc prev_underscore (c # cs) =
     (if c = CHR ''_'' then (if prev_underscore then None else scan_digits acc True cs)
      else (case digit_val c of
              None \<Rightarrow> None
            | Some d \<Rightarrow> scan_digits (acc * 10 + d) False cs))"

definition py_int :: "string \<Rightarrow> int option" where
  "py_int s =
     (let t = rev (dropWhile is_space (rev (dropWhile is_space s)));
          neg = (t \<noteq> [] \<and> hd t = CHR ''-'');
          body = (if t \<noteq> [] \<and> (hd t = CHR ''+'' \<or> hd t = CHR ''-'') then tl t else t)
      in if body = [] \<or> hd body = CHR ''_'' then None
         else (case scan_digits 0 False body of
                 None \<Rightarrow> None
               | Some n \<Rightarrow> Some (if neg then - n else n)))"

subsection \<open>\<^verbatim>\<open>client\<close> (lines 164-263)\<close>

record args =
  serverip :: string
  port :: int
  time :: rat              \<comment> \<open>\<^verbatim>\<open>args.time\<close>\<close>
  time_text :: string      \<comment> \<open>what \<^verbatim>\<open>f"{args.time}"\<close> gives (the repr of a float is not modelled)\<close>
  interval :: "int option"
  format :: string
  num :: "string option"

definition reporting :: "args \<Rightarrow> int option" where
  \<comment> \<open>\<^verbatim>\<open>if interval_duration:\<close> holds for an integer other than 0; \<open>Some i\<close> is that integer\<close>
  "reporting a = (case interval a of None \<Rightarrow> None | Some i \<Rightarrow> if i = 0 then None else Some i)"

definition num_bytes :: "string option \<Rightarrow> error + int option" where
  \<comment> \<open>lines 223-228; \<open>Inr None\<close>: \<^verbatim>\<open>args.num\<close> is \<^verbatim>\<open>None\<close> or empty and \<^verbatim>\<open>num_bytes\<close> is never read\<close>
  "num_bytes n =
     (case n of
        None \<Rightarrow> Inr None
      | Some s \<Rightarrow>
          if s = [] then Inr None
          else (case py_int (take (length s - 2) s) of
                  None \<Rightarrow> Inl ValueError
                | Some v \<Rightarrow>
                    Inr (Some (if endswith s ''KB'' then v * CHUNK_SIZE
                               else if endswith s ''MB'' then v * (CHUNK_SIZE * CHUNK_SIZE)
                               else v))))"

record sender =
  total_bytes_sent :: int
  interval_sent :: int
  total_time :: rat
  interval_number :: int
  last_interval_start_time :: rat
  ntime :: nat             \<comment> \<open>calls of \<^verbatim>\<open>time.time()\<close> made so far\<close>
  nsend :: nat             \<comment> \<open>calls of \<^verbatim>\<open>send\<close>/\<^verbatim>\<open>sendall\<close> made so far\<close>
  events :: "event list"

definition data :: string where
  \<comment> \<open>\<^verbatim>\<open>b'0' * CHUNK_SIZE\<close>\<close>
  "data = replicate (nat CHUNK_SIZE) (CHR ''0'')"

definition init_sender :: "world \<Rightarrow> event list \<Rightarrow> sender" where
  \<comment> \<open>lines 211-216; the first clock reading is \<^verbatim>\<open>start_time\<close>, the first send was START\<close>
  "init_sender w evs =
     \<lparr>total_bytes_sent = 0, interval_sent = 0, total_time = 0, interval_number = 0,
      last_interval_start_time = clock w 0, ntime = 1, nsend = 1, events = evs\<rparr>"

definition stop_now :: "args \<Rightarrow> int option \<Rightarrow> sender \<Rightarrow> bool" where
  \<comment> \<open>line 233; \<open>target\<close> is \<open>None\<close> when \<^verbatim>\<open>args.num\<close> is falsy\<close>
  "stop_now a target s =
     (time a < total_time s \<or>
      (case target of None \<Rightarrow> False | Some n \<Rightarrow> n < total_bytes_sent s))"

definition send_chunk :: "world \<Rightarrow> rat \<Rightarrow> sender \<Rightarrow> sender" where
  \<comment> \<open>lines 237-240, once \<^verbatim>\<open>sendall\<close> has returned\<close>
  "send_chunk w start_time s =
     s\<lparr>events := events s @ [Sendall data],
       nsend := nsend s + 1,
       total_bytes_sent := total_bytes_sent s + CHUNK_SIZE,
       interval_sent := interval_sent s + CHUNK_SIZE,
       total_time := clock w (ntime s) - start_time,
       ntime := ntime s + 1\<rparr>"

definition report :: "world \<Rightarrow> args \<Rightarrow> address \<Rightarrow> sender \<Rightarrow> outcome \<times> sender" where
  \<comment> \<open>lines 241-248\<close>
  "report w a client_address s =
     (let time_since_last_interval = clock w (ntime s) - last_interval_start_time s;
          s1 = s\<lparr>ntime := ntime s + 1\<rparr>
      in case reporting a of
           None \<Rightarrow> (Returned, s1)
         | Some interval_duration \<Rightarrow>
             if of_int interval_duration < time_since_last_interval then
               (case print_statistics client_address (interval_sent s1) (interval_number s1)
                       (of_int interval_duration) (format a) (events s1) of
                  (Raised e, evs) \<Rightarrow> (Raised e, s1\<lparr>events := evs\<rparr>)
                | (Returned, evs) \<Rightarrow>
                    (Returned,
                     s1\<lparr>events := evs,
                        interval_number := interval_number s1 + 1,
                        interval_sent := 0,
                        last_interval_start_time := clock w (ntime s1),
                        ntime := ntime s1 + 1\<rparr>))
             else (Returned, s1))"

definition client_iter :: "world \<Rightarrow> args \<Rightarrow> address \<Rightarrow> rat \<Rightarrow> sender \<Rightarrow> outcome \<times> sender" where
  \<comment> \<open>one pass through lines 236-248\<close>
  "client_iter w a client_address start_time s =
     (case send_res w (nsend s) of
        Some e \<Rightarrow> (Raised e, s)
      | None \<Rightarrow> report w a client_address (send_chunk w start_time s))"








subsection \<open>The states of the sender loop\<close>

text \<open>
  \<open>head_at \<dots> s k\<close> is the state in which the loop condition of line 233 is evaluated for
  the k-th time after the evaluation in state \<open>s\<close>, when the run gets there: every earlier
  evaluation found no limit exceeded and every pass through the body returned.
\<close>

fun head_at ::
  "world \<Rightarrow> args \<Rightarrow> address \<Rightarrow> int option \<Rightarrow> rat \<Rightarrow> sender \<Rightarrow> nat \<Rightarrow> sender option" where
  "head_at w a client_address target start_time s 0 = Some s"
| "head_at w a client_address target start_time s (Suc k) =
     (if stop_now a target s then None
      else (case client_iter w a client_address start_time s of
              (Raised e, s') \<Rightarrow> None
            | (Returned, s') \<Rightarrow> head_at w a client_address target start_time s' k))"

section \<open>Properties\<close>

subsection \<open>Evaluation of the formatting functions\<close>

lemma replicate_numeral: "replicate (numeral v) x = x # replicate (numeral v - 1) x"
  by (simp add: numeral_eq_Suc)

lemmas row_eval = stats_row_def id_text_def interval_text_def bytes_transfered_def
  bandwidth_def fmt_f_def ljust_def str_int_def str_nat.simps digit_char_def
  round_half_even_def CHUNK_SIZE_def Let_def replicate_numeral

subsection \<open>The statistics row\<close>





text \<open>
  C7. The claim that \<^verbatim>\<open>print_statistics\<close> performs no output and hands a record back to its
  caller fails: called with an empty output, it leaves one printed line there and returns
  nothing.
\<close>

theorem print_statistics_prints:
  "print_statistics (''10.0.0.2'', 5000) 1000000 0 1 ''MB'' [] =
     (Returned, [Print ''10.0.0.2:5000    0.0 - 1.0    1.00 MB      8.0 Mbps    '']) \<and>
   snd (print_statistics (''10.0.0.2'', 5000) 1000000 0 1 ''MB'' []) \<noteq> []"
  by (simp add: print_statistics_def row_eval)

text \<open>
  C7, as amended. On valid arguments \<^verbatim>\<open>print_statistics\<close> has exactly one effect: it appends
  one \<^verbatim>\<open>print\<close> of the formatted row to the output, leaves what was printed before as it
  was, and returns no value.
\<close>

theorem print_statistics_effect:
  assumes "0 \<le> b" and "0 < s"
  shows "\<exists>row. print_statistics addr b n s fmt evs = (Returned, evs @ [Print row]) \<and>
               row = stats_row (id_text addr) (interval_text n s) (bytes_transfered fmt b)
                       (bandwidth b s)"
  using assms by (simp add: print_statistics_def)

theorem print_statistics_effect_witness:
  "\<exists>row. print_statistics (''10.0.0.2'', 5000) 3000 1 5 ''B'' [Print ''earlier''] =
            (Returned, [Print ''earlier'', Print row]) \<and>
          row = ''10.0.0.2:5000    5.0 - 10.0   3000 B       0.0 Mbps    ''"
  using print_statistics_effect [of 3000 5 "(''10.0.0.2'', 5000)" 1 "''B''" "[Print ''earlier'']"]
  by (simp add: row_eval)

subsection \<open>The receiver session\<close>





lemma recv_loop_never_returns:
  assumes reads: "\<forall>j \<ge> k0. \<exists>d. recv_res w0 j = Inr d \<and> drop (length d - 3) d \<noteq> ''BYE''"
    and ret: "recv_loop w0 fmt0 addr0 st0 k b = Some y"
  shows "\<not> k0 \<le> k"
proof -
  have "w0 = w0 \<longrightarrow> \<not> k0 \<le> k"
  proof (rule recv_loop.raw_induct
    [where P = "\<lambda>w fmt addr st k b y. w = w0 \<longrightarrow> \<not> k0 \<le> k", OF _ ret])
  fix rl w fmt addr st k b y
  assume IH: "\<And>w fmt addr st k b y. rl w fmt addr st k b = Some y \<Longrightarrow> w = w0 \<longrightarrow> \<not> k0 \<le> k"
    and step: "(case recv_res w k of
        Inl e \<Rightarrow> Some (Raised e, [])
      | Inr dat \<Rightarrow>
          (let bytes_received' = b + int (length dat)
           in if drop (length dat - 3) dat = ''BYE'' then
                (case send_res w 0 of
                   Some e \<Rightarrow> Some (Raised e, [])
                 | None \<Rightarrow>
                     (let end_time = clock w 1 - st
                      in Some (print_statistics addr bytes_received' 0 end_time fmt
                                 [Send ''ACK:BYE'', Print (CHR 0x0A # table_header)])))
              else rl w fmt addr st (k + 1) bytes_received')) = Some y"
  show "w = w0 \<longrightarrow> \<not> k0 \<le> k"
  proof (intro impI notI)
    assume w: "w = w0" and k: "k0 \<le> k"
    with reads obtain d where d: "recv_res w k = Inr d" "drop (length d - 3) d \<noteq> ''BYE''"
      by blast
    from step have "rl w fmt addr st (k + 1) (b + int (length d)) = Some y"
      by (simp add: d)
    from IH [OF this] w k show False by simp
  qed
  qed
  then show ?thesis by simp
qed

text \<open>
  C4. After a first read of four bytes the peer closes, so every later \<^verbatim>\<open>recv\<close> returns the
  empty byte string. No read ends in \<^verbatim>\<open>BYE\<close> and none raises: the loop of lines 141-159 is
  never left, the session does not return and the \<^verbatim>\<open>finally\<close> clause is not reached.
\<close>

theorem eof_never_returns:
  "handle_client
     \<lparr>clock = (\<lambda>k. of_nat k), connect_res = None,
      name_res = Inr (''10.0.0.2'', 5000),
      recv_res = (\<lambda>k. if k = 0 then Inr ''0000'' else Inr ''''),
      send_res = (\<lambda>k. None)\<rparr> ''MB'' = None"
proof -
  let ?w = "\<lparr>clock = (\<lambda>k. of_nat k), connect_res = None,
      name_res = Inr (''10.0.0.2'', 5000),
      recv_res = (\<lambda>k. if k = 0 then Inr ''0000'' else Inr ''''),
      send_res = (\<lambda>k. None)\<rparr>"
  have "\<forall>j \<ge> 0. \<exists>d. recv_res ?w j = Inr d \<and> drop (length d - 3) d \<noteq> ''BYE''"
    by simp
  then have "recv_loop ?w ''MB'' (''10.0.0.2'', 5000) (clock ?w 0) 0 0 \<noteq> Some y" for y
    using recv_loop_never_returns [of 0 ?w "''MB''" "(''10.0.0.2'', 5000)" "clock ?w 0" 0 0 y]
    by blast
  then have "recv_loop ?w ''MB'' (''10.0.0.2'', 5000) (clock ?w 0) 0 0 = None"
    by (cases "recv_loop ?w ''MB'' (''10.0.0.2'', 5000) (clock ?w 0) 0 0") simp_all
  then show ?thesis by (simp add: handle_client_def)
qed




subsection \<open>The sender session\<close>

lemmas sender_eval = client_iter_def send_chunk_def report_def reporting_def stop_now_def
  init_sender_def print_statistics_def

lemmas int_eval = py_int_def is_space_def digit_val_def Let_def


lemma head_at_Suc:
  assumes "head_at w a addr target start s0 (Suc k) = Some s"
  obtains s1 where "\<not> stop_now a target s0"
    and "client_iter w a addr start s0 = (Returned, s1)"
    and "head_at w a addr target start s1 k = Some s"
  using assms by (auto split: if_splits prod.splits outcome.splits)






lemma report_counters:
  assumes "report w a addr s = (r, s')"
  shows "total_bytes_sent s' = total_bytes_sent s \<and>
         (interval_sent s' = interval_sent s \<or> interval_sent s' = 0)"
  using assms
  by (auto simp: report_def Let_def print_statistics_def
      split: option.splits if_splits)

lemma client_iter_counters:
  assumes "0 \<le> interval_sent s \<and> interval_sent s \<le> total_bytes_sent s"
    and "client_iter w a addr start s = (r, s')"
  shows "0 \<le> interval_sent s' \<and> interval_sent s' \<le> total_bytes_sent s'"
proof (cases "send_res w (nsend s)")
  case (Some e)
  with assms show ?thesis by (simp add: client_iter_def)
next
  case None
  with assms(2) have "report w a addr (send_chunk w start s) = (r, s')"
    by (simp add: client_iter_def)
  from report_counters [OF this] assms(1) show ?thesis
    by (auto simp: send_chunk_def CHUNK_SIZE_def)
qed

lemma head_at_counters:
  assumes "0 \<le> interval_sent s0 \<and> interval_sent s0 \<le> total_bytes_sent s0"
    and "head_at w a addr target start s0 k = Some s"
  shows "0 \<le> interval_sent s \<and> interval_sent s \<le> total_bytes_sent s"
  using assms
proof (induction k arbitrary: s0)
  case 0
  then show ?case by simp
next
  case (Suc k)
  from Suc.prems(2) obtain s1 where it: "client_iter w a addr start s0 = (Returned, s1)"
    and h: "head_at w a addr target start s1 k = Some s"
    by (rule head_at_Suc)
  from client_iter_counters [OF Suc.prems(1) it] h show ?case by (rule Suc.IH)
qed

text \<open>
  C8. Both counters start at 0. In every state in which the loop condition is evaluated,
  and in the state after the send of the next pass, the bytes accumulated since the last
  interval reset are at most the bytes sent in total.
\<close>

theorem interval_sent_le_total:
  assumes "head_at w a addr target start (init_sender w evs) k = Some s"
  shows "interval_sent (init_sender w evs) = 0 \<and> total_bytes_sent (init_sender w evs) = 0 \<and>
         interval_sent s \<le> total_bytes_sent s \<and>
         interval_sent (send_chunk w start s) \<le> total_bytes_sent (send_chunk w start s)"
proof -
  have "0 \<le> interval_sent (init_sender w evs) \<and>
        interval_sent (init_sender w evs) \<le> total_bytes_sent (init_sender w evs)"
    by (simp add: init_sender_def)
  from head_at_counters [OF this assms]
  have "0 \<le> interval_sent s \<and> interval_sent s \<le> total_bytes_sent s" .
  then show ?thesis by (simp add: send_chunk_def init_sender_def)
qed

theorem interval_sent_le_total_witness:
  "\<exists>s. head_at
          \<lparr>clock = (\<lambda>k. of_nat k), connect_res = None, name_res = Inr (''10.0.0.2'', 5000),
           recv_res = (\<lambda>k. Inr ''ACK:BYE''), send_res = (\<lambda>k. None)\<rparr>
          \<lparr>serverip = ''10.0.0.1'', port = 8088, time = 10, time_text = ''10.0'',
           interval = Some 1, format = ''B'', num = None\<rparr>
          (''10.0.0.2'', 5000) None 0
          (init_sender
             \<lparr>clock = (\<lambda>k. of_nat k), connect_res = None,
              name_res = Inr (''10.0.0.2'', 5000),
              recv_res = (\<lambda>k. Inr ''ACK:BYE''), send_res = (\<lambda>k. None)\<rparr> []) 1 = Some s \<and>
        interval_sent s = 0 \<and> total_bytes_sent s = 1000 \<and> interval_number s = 1 \<and>
        interval_sent s \<le> total_bytes_sent s"
proof -
  let ?w = "\<lparr>clock = (\<lambda>k. of_nat k), connect_res = None, name_res = Inr (''10.0.0.2'', 5000),
      recv_res = (\<lambda>k. Inr ''ACK:BYE''), send_res = (\<lambda>k. None)\<rparr>"
  let ?a = "\<lparr>serverip = ''10.0.0.1'', port = 8088, time = 10, time_text = ''10.0'',
      interval = Some 1, format = ''B'', num = None\<rparr>"
  let ?s = "\<lparr>total_bytes_sent = 1000, interval_sent = 0, total_time = 1, interval_number = 1,
         last_interval_start_time = 3, ntime = 4, nsend = 2,
         events = [Sendall data,
                   Print ''10.0.0.2:5000    0.0 - 1.0    1000 B       0.0 Mbps    '']\<rparr>"
  have h: "head_at ?w ?a (''10.0.0.2'', 5000) None 0 (init_sender ?w []) 1 = Some ?s"
    by (simp add: sender_eval row_eval)
  from interval_sent_le_total [OF h] h show ?thesis
    by simp
qed




text \<open>
  C10. For a byte-count target that ends in \<^verbatim>\<open>B\<close> but in neither \<^verbatim>\<open>KB\<close> nor \<^verbatim>\<open>MB\<close>, the parsed
  target is \<^verbatim>\<open>int\<close> of the string without its last two characters, with no multiplier:
  \<^verbatim>\<open>3000B\<close> gives 300. When that prefix is not an integer literal the conversion raises.
\<close>

theorem plain_suffix_target:
  assumes "endswith s ''B''" and "\<not> endswith s ''KB''" and "\<not> endswith s ''MB''"
  shows "num_bytes (Some s) =
           (case py_int (take (length s - 2) s) of
              None \<Rightarrow> Inl ValueError
            | Some v \<Rightarrow> Inr (Some v))"
  using assms by (auto simp: num_bytes_def endswith_def split: option.splits)

theorem plain_suffix_target_witness:
  "endswith ''3000B'' ''B'' \<and> \<not> endswith ''3000B'' ''KB'' \<and> \<not> endswith ''3000B'' ''MB'' \<and>
   num_bytes (Some ''3000B'') = Inr (Some 300)"
  using plain_suffix_target [of "''3000B''"]
  by (simp add: endswith_def int_eval)

end
